theory Spec2Isabelle
  imports Main
begin

section \<open>HubSpot to Excel exporter: the merge and the paginated fetch\<close>

text \<open>
  The development embeds two methods of \<open>HubSpotExporter\<close>
  (file \<open>HubSpot_to_Excel_SmartUpdate_1.2.py\<close>): \<open>merge_contact_data\<close>, which
  reconciles freshly fetched contact rows with the \<open>Contacts\<close> sheet of a previous
  export, and \<open>get_contacts_from_list\<close>, which pages through the list endpoint.
  The row construction of \<open>update_excel\<close> (the dictionary \<open>contact_info\<close>) is
  embedded too, since it fixes the columns and the time stamp of the fetched rows.
\<close>

subsection \<open>Cells and data frames\<close>

text \<open>
  A cell of a table is a string, a number or the missing value that \<open>read_excel\<close>
  produces for a blank cell. The merge never inspects a cell other than by comparing a
  fetched identifier, which is always a string, with the identifiers of the existing table.
\<close>

datatype cell = Str string | Num int | NaN

text \<open>
  A data frame is kept column-major, as pandas does: the ordered list of its columns,
  each a label with the values of that column, top row first. The data frame without any
  column is the empty list; it is what \<open>pd.DataFrame([])\<close> builds.
\<close>

type_synonym dataframe = "(string \<times> cell list) list"

definition columns :: "dataframe \<Rightarrow> string list" where
  "columns df = map fst df"

definition nrows :: "dataframe \<Rightarrow> nat" where
  "nrows df = (case df of [] \<Rightarrow> 0 | (_, vs) # _ \<Rightarrow> length vs)"

text \<open>\<open>df.empty\<close>: true when either axis has length zero.\<close>

definition df_empty :: "dataframe \<Rightarrow> bool" where
  "df_empty df = (df = [] \<or> nrows df = 0)"

text \<open>
  The invariant of a data frame that \<open>read_excel\<close> or \<open>pd.DataFrame\<close> built: the
  column labels are pairwise distinct and every column has one value per row.
\<close>

definition wf_df :: "dataframe \<Rightarrow> bool" where
  "wf_df df = (distinct (columns df) \<and> (\<forall>p \<in> set df. length (snd p) = nrows df))"

text \<open>The values of a column (no values for a label the frame does not have).\<close>

definition column_values :: "dataframe \<Rightarrow> string \<Rightarrow> cell list" where
  "column_values df col = (case map_of df col of None \<Rightarrow> [] | Some vs \<Rightarrow> vs)"

text \<open>The cell of column \<open>col\<close> in row \<open>k\<close>, if the frame has both.\<close>

definition cell_at :: "dataframe \<Rightarrow> string \<Rightarrow> nat \<Rightarrow> cell option" where
  "cell_at df col k =
     (case map_of df col of
        None \<Rightarrow> None
      | Some vs \<Rightarrow> if k < length vs then Some (vs ! k) else None)"

text \<open>
  \<open>df[col] = vals\<close>: an existing column is overwritten where it stands, a new one is
  appended after the last column.
\<close>

primrec set_column :: "string \<Rightarrow> cell list \<Rightarrow> dataframe \<Rightarrow> dataframe" where
  "set_column col vals [] = [(col, vals)]"
| "set_column col vals (p # ps) =
     (if fst p = col then (col, vals) # ps else p # set_column col vals ps)"

subsection \<open>Errors\<close>

text \<open>The exceptions that the pandas calls of the merge can raise.\<close>

datatype error = KeyError string | ValueError

subsection \<open>The fetched rows\<close>

text \<open>
  A contact in the format that \<open>get_contacts_from_list\<close> returns: the identifier,
  always a string (key \<open>"id"\<close>), and the flattened properties (key \<open>"properties"\<close>).
\<close>

record v3_contact =
  v3_id :: string
  v3_properties :: "(string \<times> cell) list"

text \<open>
  The dictionary \<open>contact_info\<close> that \<open>update_excel\<close> builds for each contact.
  Its keys, in insertion order, are the labels of \<open>fetched_columns\<close> below.
\<close>

record contact_info =
  Contact_ID :: string
  Email :: cell
  First_Name :: cell
  Last_Name :: cell
  Phone :: cell
  Company :: cell
  Lifecycle_Stage :: cell
  Lead_Status :: cell
  Last_Updated :: string

text \<open>\<open>properties.get(key, "")\<close>\<close>

definition get_property :: "(string \<times> cell) list \<Rightarrow> string \<Rightarrow> cell" where
  "get_property props key = (case map_of props key of None \<Rightarrow> Str [] | Some v \<Rightarrow> v)"

text \<open>
  One iteration of the loop \<open>for i, contact in enumerate(contacts)\<close> of
  \<open>update_excel\<close>; \<open>now\<close> is what \<open>datetime.now().strftime(...)\<close> returns
  in that iteration.
\<close>

definition contact_info_of :: "string \<Rightarrow> v3_contact \<Rightarrow> contact_info" where
  "contact_info_of now contact =
     \<lparr> Contact_ID = v3_id contact,
       Email = get_property (v3_properties contact) ''email'',
       First_Name = get_property (v3_properties contact) ''firstname'',
       Last_Name = get_property (v3_properties contact) ''lastname'',
       Phone = get_property (v3_properties contact) ''phone'',
       Company = get_property (v3_properties contact) ''company'',
       Lifecycle_Stage = get_property (v3_properties contact) ''lifecyclestage'',
       Lead_Status = get_property (v3_properties contact) ''hs_lead_status'',
       Last_Updated = now \<rparr>"

text \<open>
  The whole loop: \<open>clock i\<close> is the reading of the clock in iteration \<open>i\<close>.
\<close>

definition contact_data :: "(nat \<Rightarrow> string) \<Rightarrow> v3_contact list \<Rightarrow> contact_info list" where
  "contact_data clock contacts =
     map (\<lambda>(i, contact). contact_info_of (clock i) contact) (enumerate 0 contacts)"

definition fetched_columns :: "string list" where
  "fetched_columns =
     [''Contact ID'', ''Email'', ''First Name'', ''Last Name'', ''Phone'', ''Company'',
      ''Lifecycle Stage'', ''Lead Status'', ''Last Updated'']"

text \<open>
  \<open>pd.DataFrame(new_contacts)\<close> on the list of \<open>contact_info\<close> dictionaries: one
  column per key, in the order of the keys, one row per dictionary; no column at all for
  the empty list.
\<close>

definition DataFrame :: "contact_info list \<Rightarrow> dataframe" where
  "DataFrame new_contacts =
     (if new_contacts = [] then []
      else [(''Contact ID'', map (\<lambda>r. Str (Contact_ID r)) new_contacts),
            (''Email'', map Email new_contacts),
            (''First Name'', map First_Name new_contacts),
            (''Last Name'', map Last_Name new_contacts),
            (''Phone'', map Phone new_contacts),
            (''Company'', map Company new_contacts),
            (''Lifecycle Stage'', map Lifecycle_Stage new_contacts),
            (''Lead Status'', map Lead_Status new_contacts),
            (''Last Updated'', map (\<lambda>r. Str (Last_Updated r)) new_contacts)])"

subsection \<open>The pandas operations of the merge\<close>

text \<open>\<open>df[labels]\<close>: the listed columns in the listed order; a missing label raises.\<close>

fun select_columns :: "string list \<Rightarrow> dataframe \<Rightarrow> error + dataframe" where
  "select_columns [] df = Inr []"
| "select_columns (col # cols) df =
     (case map_of df col of
        None \<Rightarrow> Inl (KeyError col)
      | Some vs \<Rightarrow>
          (case select_columns cols df of
             Inl e \<Rightarrow> Inl e
           | Inr rest \<Rightarrow> Inr ((col, vs) # rest)))"

text \<open>
  \<open>df.set_index(key)\<close>: the values of the key column become the row labels and the
  column leaves the frame.
\<close>

definition set_index :: "string \<Rightarrow> dataframe \<Rightarrow> error + (cell list \<times> dataframe)" where
  "set_index key df =
     (case map_of df key of
        None \<Rightarrow> Inl (KeyError key)
      | Some idx \<Rightarrow> Inr (idx, filter (\<lambda>p. fst p \<noteq> key) df))"

text \<open>
  \<open>to_dict('index')\<close>: a dictionary from each row label to the dictionary of that
  row. pandas raises \<open>ValueError\<close> (``DataFrame index must be unique for
  orient='index'.'') when a row label occurs twice.
\<close>

definition row_dict :: "dataframe \<Rightarrow> nat \<Rightarrow> (string \<times> cell) list" where
  "row_dict df i = map (\<lambda>(col, vs). (col, vs ! i)) df"

definition to_dict_index ::
    "cell list \<times> dataframe \<Rightarrow> error + (cell \<times> (string \<times> cell) list) list" where
  "to_dict_index indexed =
     (case indexed of (idx, df) \<Rightarrow>
        if \<not> distinct idx then Inl ValueError
        else Inr (map (\<lambda>i. (idx ! i, row_dict df i)) [0..<length idx]))"

text \<open>\<open>custom_data.get(x, {}).get(col, '')\<close>\<close>

definition lookup_custom ::
    "(cell \<times> (string \<times> cell) list) list \<Rightarrow> string \<Rightarrow> cell \<Rightarrow> cell" where
  "lookup_custom custom_data col x =
     (case map_of custom_data x of
        None \<Rightarrow> Str []
      | Some d \<Rightarrow> (case map_of d col of None \<Rightarrow> Str [] | Some v \<Rightarrow> v))"

subsection \<open>merge_contact_data\<close>

text \<open>
  \<open>now\<close> is the reading of the clock at the assignment to \<open>'Last Updated'\<close>;
  \<open>None\<close> for the existing table is Python's \<open>None\<close>. The messages the method
  prints do not influence its result and are left out.
\<close>

definition add_custom_column ::
    "(cell \<times> (string \<times> cell) list) list \<Rightarrow> string \<Rightarrow> dataframe \<Rightarrow> dataframe" where
  "add_custom_column custom_data col new_df =
     set_column col (map (lookup_custom custom_data col) (column_values new_df ''Contact ID''))
       new_df"

definition merge_contact_data ::
    "string \<Rightarrow> contact_info list \<Rightarrow> dataframe option \<Rightarrow> error + dataframe" where
  "merge_contact_data now new_contacts existing_contacts =
     (case existing_contacts of
        None \<Rightarrow> Inr (DataFrame new_contacts)
      | Some existing_df \<Rightarrow>
          if df_empty existing_df then Inr (DataFrame new_contacts)
          else
            let new_df = DataFrame new_contacts in
            if ''Contact ID'' \<notin> set (columns existing_df) then Inr new_df
            else
              let hubspot_columns = (if \<not> df_empty new_df then columns new_df else []);
                  custom_columns =
                    filter (\<lambda>col. col \<notin> set hubspot_columns) (columns existing_df)
              in
                if df_empty new_df then Inr existing_df
                else
                  (case select_columns (''Contact ID'' # custom_columns) existing_df of
                     Inl e \<Rightarrow> Inl e
                   | Inr selected \<Rightarrow>
                       (case set_index ''Contact ID'' selected of
                          Inl e \<Rightarrow> Inl e
                        | Inr indexed \<Rightarrow>
                            (case to_dict_index indexed of
                               Inl e \<Rightarrow> Inl e
                             | Inr custom_data \<Rightarrow>
                                 Inr (fold (add_custom_column custom_data) custom_columns
                                        (set_column ''Last Updated''
                                           (replicate (nrows new_df) (Str now)) new_df))))))"

subsection \<open>Abbreviations for the result of the merge\<close>

text \<open>
  The custom columns, the lookup table and the merged frame that \<open>merge_contact_data\<close>
  computes when the fetch is not empty (there \<open>hubspot_columns\<close> is
  \<open>fetched_columns\<close>). They only name parts of the definition above;
  \<open>merge_contact_data_nonempty\<close> below proves that they are what the method computes.
\<close>

definition custom_columns_of :: "dataframe \<Rightarrow> string list" where
  "custom_columns_of existing_df =
     filter (\<lambda>col. col \<notin> set fetched_columns) (columns existing_df)"

definition custom_data_of :: "dataframe \<Rightarrow> (cell \<times> (string \<times> cell) list) list" where
  "custom_data_of existing_df =
     map (\<lambda>i. (column_values existing_df ''Contact ID'' ! i,
                row_dict (map (\<lambda>col. (col, column_values existing_df col))
                            (custom_columns_of existing_df)) i))
       [0..<length (column_values existing_df ''Contact ID'')]"

definition merged :: "string \<Rightarrow> contact_info list \<Rightarrow> dataframe \<Rightarrow> dataframe" where
  "merged now new_contacts existing_df =
     fold (add_custom_column (custom_data_of existing_df)) (custom_columns_of existing_df)
       (set_column ''Last Updated'' (replicate (length new_contacts) (Str now))
          (DataFrame new_contacts))"

subsection \<open>The list endpoint\<close>

text \<open>
  A contact as the version 1 endpoint returns it. \<open>vid\<close> is the integer identifier,
  absent when the key is; a property is either a dictionary, of which only the key
  \<open>"value"\<close> is read, or a plain value.
\<close>

datatype prop_value = PropDict "cell option" | PropPlain cell

record raw_contact =
  vid :: "int option"
  raw_properties :: "(string \<times> prop_value) list option"

text \<open>
  The body of a page, \<open>response.json()\<close>, with the three keys the loop reads; a key
  the body lacks is \<open>None\<close>.
\<close>

record page_data =
  page_contacts :: "raw_contact list option"
  has_more :: "bool option"
  vid_offset :: "int option"

text \<open>
  What one call of \<open>requests.get\<close> does: it raises (a transport failure), or it
  returns a response with a status code, a text and a body; the body is \<open>Inl\<close> when
  \<open>response.json()\<close> raises.
\<close>

datatype response =
    RequestException string
  | Response int string "string + page_data"

text \<open>The parameters of a request that vary, and the lines the method prints.\<close>

record request =
  count :: int
  vidOffset :: int

datatype message =
    FetchingFromList string
  | FetchingPage nat int
  | AuthenticationFailed
  | ListNotFound string
  | RunGetLists
  | HttpError int string
  | Retrieved nat
  | ExceptionOccurred string
  | TotalRetrieved nat

text \<open>The local variables of the method, the requests it has sent and the lines printed.\<close>

record loop_state =
  contacts :: "raw_contact list"
  offset :: int
  page :: nat
  sent :: "request list"
  printed :: "message list"

text \<open>How the loop is left: by one of the \<open>return []\<close> or by a \<open>break\<close>.\<close>

datatype loop_exit = Return_empty | Break

definition say :: "message list \<Rightarrow> loop_state \<Rightarrow> loop_state" where
  "say ms st = st\<lparr>printed := printed st @ ms\<rparr>"

text \<open>\<open>data.get("contacts", [])\<close> and \<open>data.get("vid-offset", 0)\<close>\<close>

definition contacts_of :: "page_data \<Rightarrow> raw_contact list" where
  "contacts_of data = (case page_contacts data of None \<Rightarrow> [] | Some cs \<Rightarrow> cs)"

definition cursor_of :: "page_data \<Rightarrow> int" where
  "cursor_of data = (case vid_offset data of None \<Rightarrow> 0 | Some v \<Rightarrow> v)"

text \<open>
  The \<open>while True\<close> loop. The list holds the outcomes of the successive calls of
  \<open>requests.get\<close>, the first call first; the loop consumes one per iteration. The
  result is \<open>None\<close> when the loop asks for a page beyond the listed outcomes, that
  is, when the listed outcomes do not make it stop.
\<close>

fun fetch_pages ::
    "bool \<Rightarrow> string \<Rightarrow> int \<Rightarrow> loop_state \<Rightarrow> response list \<Rightarrow> (loop_exit \<times> loop_state) option" where
  "fetch_pages debug list_id limit st [] = None"
| "fetch_pages debug list_id limit st (r # rs) =
     (let st1 = say (if debug then [FetchingPage (page st) (offset st)] else [])
                  (st\<lparr>sent := sent st @ [\<lparr>count = limit, vidOffset = offset st\<rparr>]\<rparr>)
      in case r of
           RequestException e \<Rightarrow> Some (Break, say [ExceptionOccurred e] st1)
         | Response status_code text body \<Rightarrow>
             if status_code = 401 then Some (Return_empty, say [AuthenticationFailed] st1)
             else if status_code = 404
               then Some (Return_empty, say [ListNotFound list_id, RunGetLists] st1)
             else if status_code \<noteq> 200
               then Some (Return_empty, say [HttpError status_code text] st1)
             else
               (case body of
                  Inl e \<Rightarrow> Some (Break, say [ExceptionOccurred e] st1)
                | Inr data \<Rightarrow>
                    let st2 = say (if debug then [Retrieved (length (contacts_of data))] else [])
                                (st1\<lparr>contacts := contacts st1 @ contacts_of data\<rparr>)
                    in if has_more data = Some True
                       then fetch_pages debug list_id limit
                              (st2\<lparr>offset := cursor_of data, page := page st2 + 1\<rparr>) rs
                       else Some (Break, st2)))"

text \<open>\<open>str\<close> of an integer: its decimal digits, with a minus sign when negative.\<close>

fun str_nat :: "nat \<Rightarrow> string" where
  "str_nat n =
     (if n < 10 then [''0123456789'' ! n]
      else str_nat (n div 10) @ [''0123456789'' ! (n mod 10)])"

declare str_nat.simps [simp del]

definition str_int :: "int \<Rightarrow> string" where
  "str_int i = (if i < 0 then CHR ''-'' # str_nat (nat (- i)) else str_nat (nat i))"

text \<open>The conversion of one contact to the version 3 format, after the loop.\<close>

definition flatten :: "prop_value \<Rightarrow> cell" where
  "flatten v =
     (case v of
        PropDict d \<Rightarrow> (case d of None \<Rightarrow> Str [] | Some x \<Rightarrow> x)
      | PropPlain x \<Rightarrow> x)"

definition v3_contact_of :: "raw_contact \<Rightarrow> v3_contact" where
  "v3_contact_of contact =
     \<lparr> v3_id = (case vid contact of None \<Rightarrow> [] | Some v \<Rightarrow> str_int v),
       v3_properties =
         map (\<lambda>(prop, v). (prop, flatten v))
           (case raw_properties contact of None \<Rightarrow> [] | Some props \<Rightarrow> props) \<rparr>"

text \<open>
  What a call of the method leaves behind: the value it returns, the requests it sent and
  the lines it printed.
\<close>

record fetch_result =
  returned :: "v3_contact list"
  requests :: "request list"
  console :: "message list"

definition get_contacts_from_list ::
    "bool \<Rightarrow> string \<Rightarrow> int \<Rightarrow> response list \<Rightarrow> fetch_result option" where
  "get_contacts_from_list debug list_id limit responses =
     (case fetch_pages debug list_id limit
             \<lparr>contacts = [], offset = 0, page = 1, sent = [],
              printed = [FetchingFromList list_id]\<rparr> responses of
        None \<Rightarrow> None
      | Some (Return_empty, st) \<Rightarrow>
          Some \<lparr>returned = [], requests = sent st, console = printed st\<rparr>
      | Some (Break, st) \<Rightarrow>
          Some \<lparr>returned = map v3_contact_of (contacts st), requests = sent st,
                console = printed st @ [TotalRetrieved (length (contacts st))]\<rparr>)"

text \<open>A successful page: status 200 with a body that parses.\<close>

definition page_response :: "string \<times> page_data \<Rightarrow> response" where
  "page_response p = Response 200 (fst p) (Inr (snd p))"

text \<open>The state of the loop after a run of successful pages that all announce more.\<close>

fun after_pages :: "bool \<Rightarrow> int \<Rightarrow> loop_state \<Rightarrow> (string \<times> page_data) list \<Rightarrow> loop_state" where
  "after_pages debug limit st [] = st"
| "after_pages debug limit st (p # ps) =
     after_pages debug limit
       ((say (if debug then [Retrieved (length (contacts_of (snd p)))] else [])
          ((say (if debug then [FetchingPage (page st) (offset st)] else [])
             (st\<lparr>sent := sent st @ [\<lparr>count = limit, vidOffset = offset st\<rparr>]\<rparr>))
           \<lparr>contacts := contacts st @ contacts_of (snd p)\<rparr>))
        \<lparr>offset := cursor_of (snd p), page := page st + 1\<rparr>) ps"

subsection \<open>Test data\<close>

text \<open>
  The scenario of the specification: an existing sheet with the columns
  \<open>Contact ID\<close>, \<open>Email\<close> and the custom column \<open>Owner Notes\<close>, holding one
  row for contact 1 with the note \<open>VIP\<close>; a fetch that returns contact 1 with a new
  e-mail address. Two further sheets: one where identifier 2 occupies two rows, one without
  the identifier column.
\<close>

definition scenario_contact :: v3_contact where
  "scenario_contact = \<lparr>v3_id = ''1'', v3_properties = [(''email'', Str ''new@example.org'')]\<rparr>"

definition scenario_row :: contact_info where
  "scenario_row = contact_info_of ''2024-05-02 09:00:00'' scenario_contact"

definition scenario_existing :: dataframe where
  "scenario_existing =
     [(''Contact ID'', [Str ''1'']), (''Email'', [Str ''old@example.org'']),
      (''Owner Notes'', [Str ''VIP''])]"

definition duplicated_existing :: dataframe where
  "duplicated_existing =
     [(''Contact ID'', [Str ''1'', Str ''2'', Str ''2'']),
      (''Owner Notes'', [Str ''VIP'', Str ''call'', Str ''mail''])]"

text \<open>
  The sheet of the scenario as \<open>read_excel\<close> hands it back: the method
  \<open>load_existing_data\<close> reads every sheet without a \<open>dtype\<close>, so a column that was
  written with the decimal strings \<open>str(vid)\<close> is inferred to be a column of numbers.
\<close>

definition reloaded_existing :: dataframe where
  "reloaded_existing =
     [(''Contact ID'', [Num 1]), (''Email'', [Str ''old@example.org'']),
      (''Owner Notes'', [Str ''VIP''])]"

definition unkeyed_existing :: dataframe where
  "unkeyed_existing =
     [(''Email'', [Str ''old@example.org'']), (''Owner Notes'', [Str ''VIP''])]"

text \<open>
  Three pages of one contact each; the first two announce more and carry the cursors 100
  and 200.
\<close>

definition raw_one :: raw_contact where
  "raw_one = \<lparr>vid = Some 101,
      raw_properties = Some [(''email'', PropDict (Some (Str ''a@example.org'')))]\<rparr>"

definition raw_two :: raw_contact where
  "raw_two = \<lparr>vid = Some 102, raw_properties = Some [(''company'', PropPlain (Str ''Acme''))]\<rparr>"

definition raw_three :: raw_contact where
  "raw_three = \<lparr>vid = Some 103, raw_properties = None\<rparr>"

definition page_one :: "string \<times> page_data" where
  "page_one = ([], \<lparr>page_contacts = Some [raw_one], has_more = Some True, vid_offset = Some 100\<rparr>)"

definition page_two :: "string \<times> page_data" where
  "page_two = ([], \<lparr>page_contacts = Some [raw_two], has_more = Some True, vid_offset = Some 200\<rparr>)"

definition page_three :: "string \<times> page_data" where
  "page_three = ([], \<lparr>page_contacts = Some [raw_three], has_more = Some False, vid_offset = Some 300\<rparr>)"

section \<open>Properties\<close>

subsection \<open>The fetched rows as a data frame\<close>

lemma contact_data_length: "length (contact_data clock cs) = length cs"
  by (simp add: contact_data_def)

lemma contact_data_nth: "i < length cs \<Longrightarrow> contact_data clock cs ! i = contact_info_of (clock i) (cs ! i)"
  by (simp add: contact_data_def nth_enumerate_eq)

lemma contact_data_Nil: "(contact_data clock cs = []) = (cs = [])"
  using contact_data_length [of clock cs] by (metis length_0_conv)

lemma Last_Updated_contact_data: "i < length cs \<Longrightarrow> cell_at (DataFrame (contact_data clock cs)) ''Last Updated'' i = Some (Str (clock i))"
  apply (cases "cs = []")
   apply simp
  apply (simp add: DataFrame_def cell_at_def contact_data_length contact_data_nth contact_info_of_def contact_data_Nil)
  done

lemma columns_DataFrame: "new_contacts \<noteq> [] \<Longrightarrow> columns (DataFrame new_contacts) = fetched_columns"
  by (simp add: DataFrame_def columns_def fetched_columns_def)

lemma nrows_DataFrame: "nrows (DataFrame new_contacts) = length new_contacts"
  by (simp add: DataFrame_def nrows_def)

lemma df_empty_DataFrame: "df_empty (DataFrame new_contacts) = (new_contacts = [])"
  by (simp add: df_empty_def nrows_DataFrame) (simp add: DataFrame_def)

subsection \<open>The merge of a fetch that is not empty\<close>

lemma map_of_columns: "col \<in> set (columns df) \<Longrightarrow> map_of df col = Some (column_values df col)"
  by (auto simp: columns_def column_values_def map_of_eq_None_iff split: option.splits)

lemma select_columns_ok:
  "set cols \<subseteq> set (columns df) \<Longrightarrow>
   select_columns cols df = Inr (map (\<lambda>col. (col, column_values df col)) cols)"
  by (induction cols) (simp_all add: map_of_columns)

lemma filter_absent: "key \<notin> fst ` set df \<Longrightarrow> filter (\<lambda>p. fst p \<noteq> key) df = df"
  by (induction df) auto

lemma set_index_head:
  "key \<notin> fst ` set rest \<Longrightarrow> set_index key ((key, idx) # rest) = Inr (idx, rest)"
  by (simp add: set_index_def filter_absent)

lemma merge_contact_data_nonempty:
  assumes "new_contacts \<noteq> []" "\<not> df_empty existing_df" "''Contact ID'' \<in> set (columns existing_df)"
  shows "merge_contact_data now new_contacts (Some existing_df) =
     (if distinct (column_values existing_df ''Contact ID'')
      then Inr (merged now new_contacts existing_df) else Inl ValueError)"
proof -
  have cc: "filter (\<lambda>col. col \<notin> set (columns (DataFrame new_contacts))) (columns existing_df) = custom_columns_of existing_df"
    using assms(1) by (simp add: columns_DataFrame custom_columns_of_def)
  have sub: "set (''Contact ID'' # custom_columns_of existing_df) \<subseteq> set (columns existing_df)"
    using assms(3) by (auto simp: custom_columns_of_def)
  have notin: "''Contact ID'' \<notin> fst ` set (map (\<lambda>col. (col, column_values existing_df col)) (custom_columns_of existing_df))"
    by (auto simp: custom_columns_of_def fetched_columns_def)
  have sel: "select_columns (''Contact ID'' # custom_columns_of existing_df) existing_df =
      Inr ((''Contact ID'', column_values existing_df ''Contact ID'') #
           map (\<lambda>col. (col, column_values existing_df col)) (custom_columns_of existing_df))"
    using select_columns_ok [OF sub] by simp
  show ?thesis
    using assms(1,2,3)
    by (simp add: merge_contact_data_def Let_def df_empty_DataFrame cc sel set_index_head [OF notin]
        to_dict_index_def nrows_DataFrame merged_def custom_data_of_def del: select_columns.simps)
qed

subsection \<open>Columns and cells of the merged frame\<close>

lemma map_of_set_column: "map_of (set_column col vals df) = (map_of df)(col \<mapsto> vals)"
  by (induction df) (auto simp: fun_eq_iff)

lemma columns_set_column:
  "columns (set_column col vals df) =
     (if col \<in> set (columns df) then columns df else columns df @ [col])"
  by (induction df) (auto simp: columns_def)

lemma column_values_set_column:
  "column_values (set_column col vals df) c = (if c = col then vals else column_values df c)"
  by (simp add: column_values_def map_of_set_column)

lemma column_values_add_custom_column:
  "col \<noteq> ''Contact ID'' \<Longrightarrow>
   column_values (add_custom_column custom_data col df) ''Contact ID'' = column_values df ''Contact ID''"
  by (simp add: add_custom_column_def column_values_set_column)

lemma map_of_fold_custom:
  "''Contact ID'' \<notin> set cols \<Longrightarrow>
   map_of (fold (add_custom_column custom_data) cols df) c =
     (if c \<in> set cols
      then Some (map (lookup_custom custom_data c) (column_values df ''Contact ID''))
      else map_of df c)"
proof (induction cols arbitrary: df)
  case Nil
  then show ?case by simp
next
  case (Cons col cols)
  then have ne: "col \<noteq> ''Contact ID''" and notin: "''Contact ID'' \<notin> set cols"
    by auto
  show ?case
    using Cons.IH [OF notin, of "add_custom_column custom_data col df"]
    by (simp add: column_values_add_custom_column [OF ne])
       (simp add: add_custom_column_def map_of_set_column)
qed

lemma columns_fold_custom:
  "distinct cols \<Longrightarrow> set cols \<inter> set (columns df) = {} \<Longrightarrow>
   columns (fold (add_custom_column custom_data) cols df) = columns df @ cols"
proof (induction cols arbitrary: df)
  case Nil
  then show ?case by simp
next
  case (Cons col cols)
  have c: "columns (add_custom_column custom_data col df) = columns df @ [col]"
    using Cons.prems by (simp add: add_custom_column_def columns_set_column)
  have "columns (fold (add_custom_column custom_data) cols (add_custom_column custom_data col df)) =
        columns (add_custom_column custom_data col df) @ cols"
    using Cons.prems by (intro Cons.IH) (auto simp: c)
  then show ?case by (simp add: c)
qed

lemma custom_columns_of_distinct: "distinct (columns df) \<Longrightarrow> distinct (custom_columns_of df)"
  by (simp add: custom_columns_of_def)

lemma Contact_ID_not_custom: "''Contact ID'' \<notin> set (custom_columns_of df)"
  by (simp add: custom_columns_of_def fetched_columns_def)

lemma columns_stamped:
  "new_contacts \<noteq> [] \<Longrightarrow>
   columns (set_column ''Last Updated'' vals (DataFrame new_contacts)) = fetched_columns"
  by (simp add: DataFrame_def columns_def fetched_columns_def)

lemma ids_stamped:
  "column_values (set_column ''Last Updated'' vals (DataFrame new_contacts)) ''Contact ID'' =
     map (\<lambda>r. Str (Contact_ID r)) new_contacts"
  by (simp add: column_values_set_column) (simp add: column_values_def DataFrame_def)

lemma columns_merged:
  assumes "new_contacts \<noteq> []" "distinct (columns existing_df)"
  shows "columns (merged now new_contacts existing_df) = fetched_columns @ custom_columns_of existing_df"
proof -
  have "set (custom_columns_of existing_df) \<inter>
        set (columns (set_column ''Last Updated'' (replicate (length new_contacts) (Str now)) (DataFrame new_contacts))) = {}"
    by (auto simp: columns_stamped [OF assms(1)] custom_columns_of_def)
  then show ?thesis
    unfolding merged_def
    by (simp add: columns_fold_custom custom_columns_of_distinct [OF assms(2)] columns_stamped [OF assms(1)])
qed

lemma map_of_merged:
  "map_of (merged now new_contacts existing_df) c =
     (if c \<in> set (custom_columns_of existing_df)
      then Some (map (\<lambda>r. lookup_custom (custom_data_of existing_df) c (Str (Contact_ID r))) new_contacts)
      else map_of (set_column ''Last Updated'' (replicate (length new_contacts) (Str now)) (DataFrame new_contacts)) c)"
  unfolding merged_def
  by (simp add: map_of_fold_custom [OF Contact_ID_not_custom] ids_stamped comp_def)

lemma ids_merged:
  "column_values (merged now new_contacts existing_df) ''Contact ID'' =
     map (\<lambda>r. Str (Contact_ID r)) new_contacts"
  using ids_stamped [of "replicate (length new_contacts) (Str now)" new_contacts]
  by (simp add: column_values_def map_of_merged Contact_ID_not_custom)

subsection \<open>The lookup of custom values\<close>

lemma map_of_graph:
  "map_of (map (\<lambda>k. (k, f k)) ks) c = (if c \<in> set ks then Some (f c) else None)"
  by (induction ks) auto

lemma row_dict_selected:
  "row_dict (map (\<lambda>col. (col, column_values df col)) cols) i =
     map (\<lambda>col. (col, column_values df col ! i)) cols"
  by (simp add: row_dict_def)

lemma map_fst_custom_data: "map fst (custom_data_of df) = column_values df ''Contact ID''"
  by (simp add: custom_data_of_def comp_def map_nth)

lemma map_of_custom_data_hit:
  assumes "distinct (column_values df ''Contact ID'')" "j < length (column_values df ''Contact ID'')"
  shows "map_of (custom_data_of df) (column_values df ''Contact ID'' ! j) =
     Some (map (\<lambda>col. (col, column_values df col ! j)) (custom_columns_of df))"
proof -
  have "(column_values df ''Contact ID'' ! j,
         map (\<lambda>col. (col, column_values df col ! j)) (custom_columns_of df)) \<in> set (custom_data_of df)"
    using assms(2) by (auto simp: custom_data_of_def row_dict_selected)
  moreover have "distinct (map fst (custom_data_of df))"
    using assms(1) by (simp add: map_fst_custom_data)
  ultimately show ?thesis by simp
qed

lemma map_of_custom_data_miss:
  "x \<notin> set (column_values df ''Contact ID'') \<Longrightarrow> map_of (custom_data_of df) x = None"
  by (simp add: map_of_eq_None_iff map_fst_custom_data [symmetric] del: map_map)

lemma lookup_custom_hit:
  assumes "distinct (column_values df ''Contact ID'')" "j < length (column_values df ''Contact ID'')"
    and "c \<in> set (custom_columns_of df)"
  shows "lookup_custom (custom_data_of df) c (column_values df ''Contact ID'' ! j) =
     column_values df c ! j"
  using assms(3)
  by (simp add: lookup_custom_def map_of_custom_data_hit [OF assms(1,2)] map_of_graph)

lemma lookup_custom_miss:
  "x \<notin> set (column_values df ''Contact ID'') \<Longrightarrow> lookup_custom (custom_data_of df) c x = Str []"
  by (simp add: lookup_custom_def map_of_custom_data_miss)

lemma wf_df_length:
  "wf_df df \<Longrightarrow> c \<in> set (columns df) \<Longrightarrow> length (column_values df c) = nrows df"
  by (auto simp: wf_df_def columns_def column_values_def split: option.splits dest!: map_of_SomeD
      simp: map_of_eq_None_iff)

lemma cell_at_column_values:
  "c \<in> set (columns df) \<Longrightarrow>
   cell_at df c k = (if k < length (column_values df c) then Some (column_values df c ! k) else None)"
  by (simp add: cell_at_def map_of_columns)

lemma cell_at_SomeD:
  "cell_at df c k = Some v \<Longrightarrow> c \<in> set (columns df) \<and> k < length (column_values df c) \<and> column_values df c ! k = v"
  by (auto simp: cell_at_def columns_def column_values_def split: option.splits if_splits dest: map_of_SomeD
      intro: rev_image_eqI)

subsection \<open>Shape of the merged frame\<close>

lemma set_columns_dom: "set (columns df) = dom (map_of df)"
  by (simp add: columns_def dom_map_of_conv_image_fst)

lemma distinct_columns_set_column:
  "distinct (columns df) \<Longrightarrow> distinct (columns (set_column col vals df))"
  by (simp add: columns_set_column)

lemma distinct_columns_fold_custom:
  "distinct (columns df) \<Longrightarrow> distinct (columns (fold (add_custom_column custom_data) cols df))"
  by (induction cols arbitrary: df) (simp_all add: add_custom_column_def distinct_columns_set_column)

lemma distinct_fetched_columns: "distinct fetched_columns"
  by (simp add: fetched_columns_def)

lemma distinct_columns_DataFrame: "distinct (columns (DataFrame new_contacts))"
  by (cases "new_contacts = []") (simp_all add: columns_DataFrame distinct_fetched_columns, simp add: DataFrame_def columns_def)

lemma distinct_columns_merged: "distinct (columns (merged now new_contacts existing_df))"
  unfolding merged_def
  by (intro distinct_columns_fold_custom distinct_columns_set_column distinct_columns_DataFrame)

lemma columns_fold_custom_prefix:
  "\<exists>xs. columns (fold (add_custom_column custom_data) cols df) = columns df @ xs"
proof (induction cols arbitrary: df)
  case Nil
  then show ?case by simp
next
  case (Cons col cols)
  obtain xs where xs: "columns (fold (add_custom_column custom_data) cols (add_custom_column custom_data col df)) =
      columns (add_custom_column custom_data col df) @ xs"
    using Cons.IH by blast
  show ?case
    by (cases "col \<in> set (columns df)") (simp_all add: xs, simp_all add: add_custom_column_def columns_set_column)
qed

lemma columns_merged_prefix:
  "new_contacts \<noteq> [] \<Longrightarrow> \<exists>xs. columns (merged now new_contacts existing_df) = fetched_columns @ xs"
  using columns_fold_custom_prefix [of "custom_data_of existing_df" "custom_columns_of existing_df"
      "set_column ''Last Updated'' (replicate (length new_contacts) (Str now)) (DataFrame new_contacts)"]
  by (simp add: merged_def columns_stamped)

lemma column_values_DataFrame_length:
  "c \<in> set (columns (DataFrame new_contacts)) \<Longrightarrow> length (column_values (DataFrame new_contacts) c) = length new_contacts"
  by (cases "new_contacts = []") (auto simp: DataFrame_def columns_def column_values_def)

lemma column_values_merged_length:
  assumes "c \<in> set (columns (merged now new_contacts existing_df))"
  shows "length (column_values (merged now new_contacts existing_df) c) = length new_contacts"
proof (cases "c \<in> set (custom_columns_of existing_df)")
  case True
  then show ?thesis by (simp add: column_values_def map_of_merged)
next
  case False
  with assms have "c \<in> dom (map_of (set_column ''Last Updated'' (replicate (length new_contacts) (Str now)) (DataFrame new_contacts)))"
    unfolding set_columns_dom by (auto simp: map_of_merged)
  then have "c = ''Last Updated'' \<or> c \<in> set (columns (DataFrame new_contacts))"
    by (auto simp: map_of_set_column set_columns_dom split: if_splits)
  then show ?thesis
    using False column_values_DataFrame_length [of c new_contacts]
    by (auto simp: column_values_def map_of_merged map_of_set_column)
qed

lemma column_values_merged_fetched:
  "c \<in> set fetched_columns \<Longrightarrow> c \<noteq> ''Last Updated'' \<Longrightarrow>
   column_values (merged now new_contacts existing_df) c = column_values (DataFrame new_contacts) c"
  by (simp add: column_values_def map_of_merged custom_columns_of_def map_of_set_column)

lemma column_values_absent: "c \<notin> set (columns df) \<Longrightarrow> column_values df c = []"
  by (auto simp: column_values_def set_columns_dom split: option.splits)

lemma not_df_empty:
  assumes "c \<in> set (columns df)" "distinct (columns df)"
    and "\<forall>c\<in>set (columns df). length (column_values df c) = n" "0 < n"
  shows "\<not> df_empty df"
proof -
  obtain c0 vs rest where df: "df = (c0, vs) # rest"
    using assms(1) by (cases df) (auto simp: columns_def)
  then have "column_values df c0 = vs"
    by (simp add: column_values_def)
  moreover have "c0 \<in> set (columns df)"
    by (simp add: df columns_def)
  ultimately have "length vs = n"
    using assms(3) by auto
  then show ?thesis
    using assms(4) by (simp add: df df_empty_def nrows_def)
qed

lemma remerge:
  assumes new: "new_contacts \<noteq> []" and ids: "distinct (map Contact_ID new_contacts)"
    and cols: "columns out1 = fetched_columns @ xs" and dist: "distinct (columns out1)"
    and cid: "column_values out1 ''Contact ID'' = map (\<lambda>r. Str (Contact_ID r)) new_contacts"
    and len: "\<forall>c\<in>set (columns out1). length (column_values out1 c) = length new_contacts"
    and fet: "\<forall>c\<in>set fetched_columns. c \<noteq> ''Last Updated'' \<longrightarrow>
               column_values out1 c = column_values (DataFrame new_contacts) c"
  shows "merge_contact_data now new_contacts (Some out1) = Inr (merged now new_contacts out1)"
    and "columns (merged now new_contacts out1) = columns out1"
    and "c \<noteq> ''Last Updated'' \<Longrightarrow> column_values (merged now new_contacts out1) c = column_values out1 c"
proof -
  have cidin: "''Contact ID'' \<in> set (columns out1)"
    by (simp add: cols fetched_columns_def)
  have ne: "\<not> df_empty out1"
    using not_df_empty [OF cidin dist len] new by simp
  have dids: "distinct (column_values out1 ''Contact ID'')"
    using ids by (simp add: cid distinct_map inj_on_def)
  show "merge_contact_data now new_contacts (Some out1) = Inr (merged now new_contacts out1)"
    using merge_contact_data_nonempty [OF new ne cidin] dids by simp
  have cust: "custom_columns_of out1 = xs"
    using dist by (auto simp: custom_columns_of_def cols intro: filter_True)
  show "columns (merged now new_contacts out1) = columns out1"
    by (simp add: columns_merged [OF new dist] cust cols)
  show "column_values (merged now new_contacts out1) c = column_values out1 c" if c: "c \<noteq> ''Last Updated''"
  proof (cases "c \<in> set xs")
    case True
    then have cin: "c \<in> set (columns out1)"
      by (simp add: cols)
    have lc: "length (column_values out1 c) = length new_contacts"
      using len cin by blast
    have "lookup_custom (custom_data_of out1) c (Str (Contact_ID (new_contacts ! k))) = column_values out1 c ! k"
      if "k < length new_contacts" for k
      using lookup_custom_hit [OF dids, of k c] that True by (simp add: cid cust)
    then have "map (\<lambda>r. lookup_custom (custom_data_of out1) c (Str (Contact_ID r))) new_contacts = column_values out1 c"
      by (simp add: list_eq_iff_nth_eq lc)
    with True show ?thesis
      by (simp add: column_values_def [of "merged now new_contacts out1"] map_of_merged cust)
  next
    case False
    show ?thesis
    proof (cases "c \<in> set fetched_columns")
      case True
      then show ?thesis
        using fet c by (simp add: column_values_merged_fetched)
    next
      case nf: False
      then have "c \<notin> set (columns out1)" "c \<notin> set (columns (merged now new_contacts out1))"
        using False by (simp_all add: columns_merged [OF new dist] cust cols)
      then show ?thesis
        by (simp add: column_values_absent)
    qed
  qed
qed

subsection \<open>Merging against an earlier result\<close>

lemma merge_contact_data_new_empty:
  "merge_contact_data now [] existing = Inr out1 \<Longrightarrow>
   out1 = [] \<or> (existing = Some out1 \<and> \<not> df_empty out1 \<and> ''Contact ID'' \<in> set (columns out1))"
  by (auto simp: merge_contact_data_def DataFrame_def df_empty_def Let_def split: option.splits if_splits)

lemma merge_contact_data_new_nonempty:
  assumes "merge_contact_data now new_contacts existing = Inr out1" "new_contacts \<noteq> []"
  shows "out1 = DataFrame new_contacts \<or> (\<exists>e. out1 = merged now new_contacts e)"
proof (cases existing)
  case None
  with assms show ?thesis by (simp add: merge_contact_data_def)
next
  case (Some e)
  show ?thesis
  proof (cases "df_empty e")
    case True
    then show ?thesis
      using assms(1) by (simp add: Some merge_contact_data_def)
  next
    case ne: False
    show ?thesis
    proof (cases "''Contact ID'' \<in> set (columns e)")
      case True
      then show ?thesis
        using assms merge_contact_data_nonempty [OF assms(2) ne True, of now]
        by (auto simp: Some split: if_splits)
    next
      case False
      then show ?thesis
        using assms(1) ne by (simp add: Some merge_contact_data_def Let_def)
    qed
  qed
qed

lemma merge_empty_fetch_existing:
  "\<not> df_empty existing_df \<Longrightarrow> ''Contact ID'' \<in> set (columns existing_df) \<Longrightarrow>
   merge_contact_data now [] (Some existing_df) = Inr existing_df"
  by (simp add: merge_contact_data_def Let_def DataFrame_def df_empty_def)

lemma ids_DataFrame:
  "new_contacts \<noteq> [] \<Longrightarrow>
   column_values (DataFrame new_contacts) ''Contact ID'' = map (\<lambda>r. Str (Contact_ID r)) new_contacts"
  by (simp add: column_values_def DataFrame_def)

lemma columns_DataFrame_Nil: "columns (DataFrame []) = []"
  by (simp add: DataFrame_def columns_def)

subsection \<open>The pagination loop\<close>

lemma fetch_pages_continue:
  "\<forall>p\<in>set ps. has_more (snd p) = Some True \<Longrightarrow>
   fetch_pages debug list_id limit st (map page_response ps @ rs) =
   fetch_pages debug list_id limit (after_pages debug limit st ps) rs"
proof (induction ps arbitrary: st)
  case Nil
  then show ?case by simp
next
  case (Cons p ps)
  then have more: "has_more (snd p) = Some True" and rest: "\<forall>p\<in>set ps. has_more (snd p) = Some True"
    by simp_all
  show ?case
    using Cons.IH [OF rest] more
    by (simp add: page_response_def Let_def say_def)
qed

lemma contacts_after_pages:
  "contacts (after_pages debug limit st ps) = contacts st @ concat (map (\<lambda>p. contacts_of (snd p)) ps)"
  by (induction ps arbitrary: st) (simp_all add: say_def)

lemma sent_after_pages:
  "sent (after_pages debug limit st ps) @ [\<lparr>count = limit, vidOffset = offset (after_pages debug limit st ps)\<rparr>] =
   sent st @ map (\<lambda>v. \<lparr>count = limit, vidOffset = v\<rparr>) (offset st # map (\<lambda>p. cursor_of (snd p)) ps)"
  by (induction ps arbitrary: st) (simp_all add: say_def)

section \<open>The claims of the specification\<close>

lemmas evaluation =
  merge_contact_data_def Let_def DataFrame_def df_empty_def nrows_def columns_def
  set_index_def to_dict_index_def row_dict_def add_custom_column_def lookup_custom_def
  column_values_def contact_info_of_def get_property_def cell_at_def wf_df_def
  fetched_columns_def scenario_contact_def scenario_row_def scenario_existing_def
  duplicated_existing_def unkeyed_existing_def reloaded_existing_def

subsection \<open>Custom columns are carried over\<close>

text \<open>
  Claim C1 says that the row of an identifier that is both in the fetch and in the existing
  table keeps, in every custom column, the value the existing table holds for it; the
  docstring of \<open>merge_contact_data\<close> (``preserving custom columns'') and the line it
  prints say the same. The code misses this on the table its caller passes. The fetch
  carries the identifier as the string \<open>str(vid)\<close>; the existing table is the sheet read
  back by \<open>read_excel\<close>, where the identifier of contact 1 is the number 1. The lookup
  \<open>custom_data.get(x, {})\<close> compares the string with the number, finds nothing, and
  the custom column of the row is filled with the empty string: the note \<open>VIP\<close> of
  contact 1 is lost.
\<close>

theorem custom_values_lost_after_reload:
  "merge_contact_data ''2024-05-03 09:00:00'' [scenario_row] (Some reloaded_existing) =
     Inr [(''Contact ID'', [Str ''1'']), (''Email'', [Str ''new@example.org'']),
          (''First Name'', [Str []]), (''Last Name'', [Str []]), (''Phone'', [Str []]),
          (''Company'', [Str []]), (''Lifecycle Stage'', [Str []]), (''Lead Status'', [Str []]),
          (''Last Updated'', [Str ''2024-05-03 09:00:00'']), (''Owner Notes'', [Str []])] \<and>
   Contact_ID scenario_row = ''1'' \<and>
   cell_at reloaded_existing ''Contact ID'' 0 = Some (Num 1) \<and>
   cell_at reloaded_existing ''Owner Notes'' 0 = Some (Str ''VIP'')"
  by (simp add: evaluation)

text \<open>
  The same holds in general: whenever the identifier of a fetched record, as a string, is
  not among the cells of the identifier column, every custom column of its row is the empty
  string. This is the behaviour meant for a contact that is new, and it is also what
  happens to every contact of a sheet whose identifiers are numbers.
\<close>

lemma custom_values_blank_on_miss:
  assumes k: "k < length new_contacts"
    and ne: "\<not> df_empty existing_df"
    and cid: "''Contact ID'' \<in> set (columns existing_df)"
    and ids: "distinct (column_values existing_df ''Contact ID'')"
    and miss: "Str (Contact_ID (new_contacts ! k)) \<notin> set (column_values existing_df ''Contact ID'')"
    and c: "c \<in> set (columns existing_df)" "c \<notin> set fetched_columns"
  shows "\<exists>out. merge_contact_data now new_contacts (Some existing_df) = Inr out \<and>
           cell_at out c k = Some (Str [])"
proof -
  have new: "new_contacts \<noteq> []"
    using k by auto
  have cc: "c \<in> set (custom_columns_of existing_df)"
    using c by (simp add: custom_columns_of_def)
  have m: "merge_contact_data now new_contacts (Some existing_df) = Inr (merged now new_contacts existing_df)"
    using merge_contact_data_nonempty [OF new ne cid] ids by simp
  have "cell_at (merged now new_contacts existing_df) c k = Some (Str [])"
    using k cc lookup_custom_miss [OF miss, of c] by (simp add: cell_at_def map_of_merged)
  with m show ?thesis
    by simp
qed

text \<open>
  Where the existing table does hold the identifier as the string the fetch produces, is
  well formed and has pairwise distinct identifiers, the value of every custom column is
  carried over into the row of that identifier.
\<close>

lemma custom_values_kept:
  assumes wf: "wf_df existing_df"
    and ids: "distinct (column_values existing_df ''Contact ID'')"
    and k: "k < length new_contacts"
    and j: "cell_at existing_df ''Contact ID'' j = Some (Str (Contact_ID (new_contacts ! k)))"
    and c: "c \<in> set (columns existing_df)" "c \<notin> set fetched_columns"
  shows "\<exists>out v. merge_contact_data now new_contacts (Some existing_df) = Inr out \<and>
           cell_at out ''Contact ID'' k = Some (Str (Contact_ID (new_contacts ! k))) \<and>
           cell_at existing_df c j = Some v \<and> cell_at out c k = Some v"
proof -
  from cell_at_SomeD [OF j]
  have cid: "''Contact ID'' \<in> set (columns existing_df)"
    and jlt: "j < length (column_values existing_df ''Contact ID'')"
    and jid: "column_values existing_df ''Contact ID'' ! j = Str (Contact_ID (new_contacts ! k))"
    by auto
  have jn: "j < nrows existing_df"
    using jlt wf_df_length [OF wf cid] by simp
  then have ne: "\<not> df_empty existing_df"
    by (auto simp: df_empty_def nrows_def)
  have new: "new_contacts \<noteq> []"
    using k by auto
  have cc: "c \<in> set (custom_columns_of existing_df)"
    using c by (simp add: custom_columns_of_def)
  have m: "merge_contact_data now new_contacts (Some existing_df) = Inr (merged now new_contacts existing_df)"
    using merge_contact_data_nonempty [OF new ne cid] ids by simp
  have e: "cell_at existing_df c j = Some (column_values existing_df c ! j)"
    using jn wf_df_length [OF wf c(1)] by (simp add: cell_at_column_values [OF c(1)])
  have "lookup_custom (custom_data_of existing_df) c (Str (Contact_ID (new_contacts ! k))) =
        column_values existing_df c ! j"
    using lookup_custom_hit [OF ids jlt cc] by (simp add: jid)
  then have o: "cell_at (merged now new_contacts existing_df) c k = Some (column_values existing_df c ! j)"
    using k cc by (simp add: cell_at_def map_of_merged)
  have i: "cell_at (merged now new_contacts existing_df) ''Contact ID'' k = Some (Str (Contact_ID (new_contacts ! k)))"
    using k new by (simp add: cell_at_def map_of_merged Contact_ID_not_custom map_of_set_column)
      (simp add: DataFrame_def)
  show ?thesis
    using m e o i by simp
qed

lemma custom_values_kept_scenario:
  "wf_df scenario_existing \<and> distinct (column_values scenario_existing ''Contact ID'') \<and>
   0 < length [scenario_row] \<and>
   cell_at scenario_existing ''Contact ID'' 0 = Some (Str (Contact_ID ([scenario_row] ! 0))) \<and>
   ''Owner Notes'' \<in> set (columns scenario_existing) \<and>
   ''Owner Notes'' \<notin> set fetched_columns \<and>
   (\<exists>out. merge_contact_data ''2024-05-03 09:00:00'' [scenario_row] (Some scenario_existing) =
            Inr out \<and>
      cell_at out ''Contact ID'' 0 = Some (Str ''1'') \<and>
      cell_at out ''Owner Notes'' 0 = Some (Str ''VIP''))"
proof -
  have h1: "wf_df scenario_existing"
    by (simp add: evaluation)
  have h2: "distinct (column_values scenario_existing ''Contact ID'')"
    by (simp add: evaluation)
  have h3: "(0::nat) < length [scenario_row]"
    by simp
  have h4: "cell_at scenario_existing ''Contact ID'' 0 = Some (Str (Contact_ID ([scenario_row] ! 0)))"
    by (simp add: evaluation)
  have h5: "''Owner Notes'' \<in> set (columns scenario_existing)"
    by (simp add: evaluation)
  have h6: "''Owner Notes'' \<notin> set fetched_columns"
    by (simp add: evaluation)
  have v: "cell_at scenario_existing ''Owner Notes'' 0 = Some (Str ''VIP'')"
    by (simp add: evaluation)
  have i: "Contact_ID scenario_row = ''1''"
    by (simp add: evaluation)
  show ?thesis
    using custom_values_kept [OF h1 h2 h3 h4 h5 h6, of "''2024-05-03 09:00:00''"] h1 h2 h4 h5 h6
    by (auto simp: v i)
qed

text \<open>
  Where an identifier occupies two rows of the existing table the method returns no table:
  \<open>to_dict('index')\<close> raises \<open>ValueError\<close>.
\<close>

lemma custom_values_duplicate_identifier:
  "merge_contact_data ''2024-05-03 09:00:00'' [scenario_row] (Some duplicated_existing) =
     Inl ValueError \<and>
   ''Contact ID'' \<in> set (columns duplicated_existing) \<and>
   cell_at duplicated_existing ''Contact ID'' 0 = Some (Str (Contact_ID scenario_row)) \<and>
   cell_at duplicated_existing ''Owner Notes'' 0 = Some (Str ''VIP'')"
  by (simp add: evaluation)

subsection \<open>Identifiers that left the fetch\<close>




subsection \<open>No identifier column\<close>

text \<open>
  Claim C3: for every fetched record list and every non-empty existing table that lacks
  the column \<open>Contact ID\<close>, \<open>merge_contact_data\<close> returns the data frame of the
  new records and nothing else: no custom column is appended and no value is changed.
\<close>

theorem no_identifier_column:
  assumes "\<not> df_empty existing_df" "''Contact ID'' \<notin> set (columns existing_df)"
  shows "merge_contact_data now new_contacts (Some existing_df) = Inr (DataFrame new_contacts)"
  using assms by (simp add: merge_contact_data_def Let_def)

theorem no_identifier_column_witness:
  "\<not> df_empty unkeyed_existing \<and> ''Contact ID'' \<notin> set (columns unkeyed_existing) \<and>
   merge_contact_data ''2024-05-03 09:00:00'' [scenario_row] (Some unkeyed_existing) =
     Inr (DataFrame [scenario_row]) \<and>
   columns (DataFrame [scenario_row]) = fetched_columns"
proof -
  have h1: "\<not> df_empty unkeyed_existing"
    by (simp add: df_empty_def nrows_def unkeyed_existing_def)
  have h2: "''Contact ID'' \<notin> set (columns unkeyed_existing)"
    by (simp add: columns_def unkeyed_existing_def)
  show ?thesis
    using no_identifier_column [OF h1 h2, of "''2024-05-03 09:00:00''" "[scenario_row]"] h1 h2
    by (simp add: columns_DataFrame)
qed

subsection \<open>Pagination\<close>

text \<open>
  Claim C4: let the successive requests be answered by a non-empty finite sequence of
  successful pages (status 200, a body that parses) of which every page but the last has
  \<open>has-more\<close> true and the last has not. Then \<open>get_contacts_from_list\<close> returns,
  whatever further answers the server would have given; it returns the contacts of all
  pages, in page order, each converted to the version 3 format; and it has sent one request
  per page, the first with offset 0 and each later one with the \<open>vid-offset\<close> of the
  page before.
\<close>

theorem pagination_concatenates:
  assumes "pages \<noteq> []"
    and "\<forall>p\<in>set (butlast pages). has_more (snd p) = Some True"
    and "has_more (snd (last pages)) \<noteq> Some True"
  shows "\<exists>res. get_contacts_from_list debug list_id limit (map page_response pages @ rest) = Some res \<and>
           returned res = map v3_contact_of (concat (map (\<lambda>p. contacts_of (snd p)) pages)) \<and>
           requests res =
             map (\<lambda>v. \<lparr>count = limit, vidOffset = v\<rparr>)
               (0 # map (\<lambda>p. cursor_of (snd p)) (butlast pages))"
proof -
  define qs q where "qs = butlast pages" and "q = last pages"
  have pages: "pages = qs @ [q]"
    using assms(1) by (simp add: qs_def q_def)
  define st0 where "st0 = \<lparr>contacts = [], offset = 0, page = 1, sent = [],
              printed = [FetchingFromList list_id]\<rparr>"
  define st where "st = after_pages debug limit st0 qs"
  have more: "\<forall>p\<in>set qs. has_more (snd p) = Some True"
    using assms(2) by (simp add: qs_def)
  have last: "has_more (snd q) \<noteq> Some True"
    using assms(3) by (simp add: q_def)
  have "fetch_pages debug list_id limit st0 (map page_response pages @ rest) =
        fetch_pages debug list_id limit st (page_response q # rest)"
    using fetch_pages_continue [OF more, of debug list_id limit st0 "page_response q # rest"]
    by (simp add: pages st_def)
  also have "\<dots> = Some (Break,
       say (if debug then [Retrieved (length (contacts_of (snd q)))] else [])
         ((say (if debug then [FetchingPage (page st) (offset st)] else [])
            (st\<lparr>sent := sent st @ [\<lparr>count = limit, vidOffset = offset st\<rparr>]\<rparr>))
          \<lparr>contacts := contacts st @ contacts_of (snd q)\<rparr>))"
    using last by (simp add: page_response_def Let_def say_def)
  finally have f: "fetch_pages debug list_id limit st0 (map page_response pages @ rest) = Some (Break,
       say (if debug then [Retrieved (length (contacts_of (snd q)))] else [])
         ((say (if debug then [FetchingPage (page st) (offset st)] else [])
            (st\<lparr>sent := sent st @ [\<lparr>count = limit, vidOffset = offset st\<rparr>]\<rparr>))
          \<lparr>contacts := contacts st @ contacts_of (snd q)\<rparr>))" .
  have c: "contacts st @ contacts_of (snd q) = concat (map (\<lambda>p. contacts_of (snd p)) pages)"
    by (simp add: st_def contacts_after_pages pages st0_def)
  have s: "sent st @ [\<lparr>count = limit, vidOffset = offset st\<rparr>] =
      map (\<lambda>v. \<lparr>count = limit, vidOffset = v\<rparr>) (0 # map (\<lambda>p. cursor_of (snd p)) qs)"
    using sent_after_pages [of debug limit st0 qs] by (simp add: st_def st0_def)
  show ?thesis
    unfolding get_contacts_from_list_def st0_def [symmetric] f
    using c s by (simp add: say_def qs_def)
qed

theorem pagination_concatenates_witness:
  "[page_one, page_two, page_three] \<noteq> [] \<and>
   butlast [page_one, page_two, page_three] = [page_one, page_two] \<and>
   has_more (snd page_one) = Some True \<and> has_more (snd page_two) = Some True \<and>
   has_more (snd (last [page_one, page_two, page_three])) \<noteq> Some True \<and>
   (\<exists>res. get_contacts_from_list True ''7'' 100
            (map page_response [page_one, page_two, page_three] @ []) = Some res \<and>
      returned res =
        [\<lparr>v3_id = ''101'', v3_properties = [(''email'', Str ''a@example.org'')]\<rparr>,
         \<lparr>v3_id = ''102'', v3_properties = [(''company'', Str ''Acme'')]\<rparr>,
         \<lparr>v3_id = ''103'', v3_properties = []\<rparr>] \<and>
      map vidOffset (requests res) = [0, 100, 200])"
proof -
  have h1: "[page_one, page_two, page_three] \<noteq> []"
    by simp
  have h2: "\<forall>p\<in>set (butlast [page_one, page_two, page_three]). has_more (snd p) = Some True"
    by (simp add: page_one_def page_two_def)
  have h3: "has_more (snd (last [page_one, page_two, page_three])) \<noteq> Some True"
    by (simp add: page_three_def)
  have v: "map v3_contact_of [raw_one, raw_two, raw_three] =
        [\<lparr>v3_id = ''101'', v3_properties = [(''email'', Str ''a@example.org'')]\<rparr>,
         \<lparr>v3_id = ''102'', v3_properties = [(''company'', Str ''Acme'')]\<rparr>,
         \<lparr>v3_id = ''103'', v3_properties = []\<rparr>]"
    by (simp add: v3_contact_of_def flatten_def str_int_def str_nat.simps raw_one_def raw_two_def
        raw_three_def)
  show ?thesis
    using pagination_concatenates [OF h1 h2 h3, of True "''7''" 100 "[]"] h3 v
    by (auto simp: contacts_of_def cursor_of_def page_one_def page_two_def page_three_def)
qed

subsection \<open>Merging twice\<close>

text \<open>
  Claim C5, as the code has it: for every fetched record list whose identifiers are
  pairwise distinct and every table that \<open>merge_contact_data\<close> has produced from it
  (against any existing table, or none), merging the same records against that table
  returns a table with the same columns in the same order and the same values in every
  column other than \<open>Last Updated\<close>.
\<close>

theorem merge_idempotent:
  assumes ids: "distinct (map Contact_ID new_contacts)"
    and first: "merge_contact_data now1 new_contacts existing = Inr out1"
  shows "\<exists>out2. merge_contact_data now2 new_contacts (Some out1) = Inr out2 \<and>
           columns out2 = columns out1 \<and>
           (\<forall>c. c \<noteq> ''Last Updated'' \<longrightarrow> column_values out2 c = column_values out1 c)"
proof (cases "new_contacts = []")
  case True
  from merge_contact_data_new_empty [OF first [unfolded True]]
  have "merge_contact_data now2 [] (Some out1) = Inr out1"
  proof
    assume "out1 = []"
    then show ?thesis by (simp add: merge_contact_data_def df_empty_def DataFrame_def)
  next
    assume "existing = Some out1 \<and> \<not> df_empty out1 \<and> ''Contact ID'' \<in> set (columns out1)"
    then show ?thesis by (simp add: merge_empty_fetch_existing)
  qed
  then show ?thesis by (simp add: True)
next
  case False
  have key: "\<exists>out2. merge_contact_data now2 new_contacts (Some out1) = Inr out2 \<and>
           columns out2 = columns out1 \<and>
           (\<forall>c. c \<noteq> ''Last Updated'' \<longrightarrow> column_values out2 c = column_values out1 c)"
    if cols: "columns out1 = fetched_columns @ xs" and dist: "distinct (columns out1)"
      and cid: "column_values out1 ''Contact ID'' = map (\<lambda>r. Str (Contact_ID r)) new_contacts"
      and len: "\<forall>c\<in>set (columns out1). length (column_values out1 c) = length new_contacts"
      and fet: "\<forall>c\<in>set fetched_columns. c \<noteq> ''Last Updated'' \<longrightarrow>
               column_values out1 c = column_values (DataFrame new_contacts) c"
    for xs
  proof (intro exI conjI allI impI)
    show "merge_contact_data now2 new_contacts (Some out1) = Inr (merged now2 new_contacts out1)"
      by (rule remerge(1) [OF False ids cols dist cid len fet])
    show "columns (merged now2 new_contacts out1) = columns out1"
      by (rule remerge(2) [OF False ids cols dist cid len fet])
    show "column_values (merged now2 new_contacts out1) c = column_values out1 c"
      if "c \<noteq> ''Last Updated''" for c
      by (rule remerge(3) [OF False ids cols dist cid len fet that])
  qed
  from merge_contact_data_new_nonempty [OF first False]
  show ?thesis
  proof
    assume o: "out1 = DataFrame new_contacts"
    show ?thesis
    proof (rule key)
      show "columns out1 = fetched_columns @ []"
        by (simp add: o columns_DataFrame [OF False])
      show "distinct (columns out1)"
        by (simp add: o distinct_columns_DataFrame)
      show "column_values out1 ''Contact ID'' = map (\<lambda>r. Str (Contact_ID r)) new_contacts"
        by (simp add: o ids_DataFrame [OF False])
      show "\<forall>c\<in>set (columns out1). length (column_values out1 c) = length new_contacts"
        by (simp add: o column_values_DataFrame_length)
      show "\<forall>c\<in>set fetched_columns. c \<noteq> ''Last Updated'' \<longrightarrow>
               column_values out1 c = column_values (DataFrame new_contacts) c"
        by (simp add: o)
    qed
  next
    assume "\<exists>e. out1 = merged now1 new_contacts e"
    then obtain e where o: "out1 = merged now1 new_contacts e" ..
    obtain xs where xs: "columns out1 = fetched_columns @ xs"
      using columns_merged_prefix [OF False, of now1 e] unfolding o by blast
    show ?thesis
    proof (rule key)
      show "columns out1 = fetched_columns @ xs"
        by (rule xs)
      show "distinct (columns out1)"
        by (simp add: o distinct_columns_merged)
      show "column_values out1 ''Contact ID'' = map (\<lambda>r. Str (Contact_ID r)) new_contacts"
        by (simp add: o ids_merged)
      show "\<forall>c\<in>set (columns out1). length (column_values out1 c) = length new_contacts"
        by (simp add: o column_values_merged_length)
      show "\<forall>c\<in>set fetched_columns. c \<noteq> ''Last Updated'' \<longrightarrow>
               column_values out1 c = column_values (DataFrame new_contacts) c"
        by (simp add: o column_values_merged_fetched)
    qed
  qed
qed

theorem merge_idempotent_witness:
  "distinct (map Contact_ID [scenario_row]) \<and>
   merge_contact_data ''2024-05-03 09:00:00'' [scenario_row] (Some scenario_existing) =
     Inr [(''Contact ID'', [Str ''1'']), (''Email'', [Str ''new@example.org'']),
          (''First Name'', [Str []]), (''Last Name'', [Str []]), (''Phone'', [Str []]),
          (''Company'', [Str []]), (''Lifecycle Stage'', [Str []]), (''Lead Status'', [Str []]),
          (''Last Updated'', [Str ''2024-05-03 09:00:00'']), (''Owner Notes'', [Str ''VIP''])] \<and>
   (\<exists>out2. merge_contact_data ''2024-05-04 09:00:00'' [scenario_row]
             (Some [(''Contact ID'', [Str ''1'']), (''Email'', [Str ''new@example.org'']),
                    (''First Name'', [Str []]), (''Last Name'', [Str []]), (''Phone'', [Str []]),
                    (''Company'', [Str []]), (''Lifecycle Stage'', [Str []]),
                    (''Lead Status'', [Str []]),
                    (''Last Updated'', [Str ''2024-05-03 09:00:00'']),
                    (''Owner Notes'', [Str ''VIP''])]) = Inr out2 \<and>
      column_values out2 ''Owner Notes'' = [Str ''VIP''] \<and>
      column_values out2 ''Email'' = [Str ''new@example.org''])"
proof -
  have h1: "distinct (map Contact_ID [scenario_row])"
    by simp
  have h2: "merge_contact_data ''2024-05-03 09:00:00'' [scenario_row] (Some scenario_existing) =
     Inr [(''Contact ID'', [Str ''1'']), (''Email'', [Str ''new@example.org'']),
          (''First Name'', [Str []]), (''Last Name'', [Str []]), (''Phone'', [Str []]),
          (''Company'', [Str []]), (''Lifecycle Stage'', [Str []]), (''Lead Status'', [Str []]),
          (''Last Updated'', [Str ''2024-05-03 09:00:00'']), (''Owner Notes'', [Str ''VIP''])]"
    by (simp add: evaluation)
  show ?thesis
    using merge_idempotent [OF h1 h2, of "''2024-05-04 09:00:00''"] h2
    by (auto simp: column_values_def)
qed

text \<open>
  Claim C5 as it is worded, for every fetched record list, fails for a fetch in which an
  identifier occurs twice: the first merge, without an existing table, returns the two
  rows, and the second merge against that table raises \<open>ValueError\<close>, since the
  identifier column of the table it is given is not unique.
\<close>

theorem merge_twice_duplicate_identifier:
  "merge_contact_data ''2024-05-03 09:00:00'' [scenario_row, scenario_row] None =
     Inr (DataFrame [scenario_row, scenario_row]) \<and>
   merge_contact_data ''2024-05-04 09:00:00'' [scenario_row, scenario_row]
     (Some (DataFrame [scenario_row, scenario_row])) = Inl ValueError"
  by (simp add: evaluation)

subsection \<open>Errors of the list endpoint\<close>

text \<open>
  Claim C6: when the requests are answered by successful pages that all announce more
  (none, for a failure on the first page) and the next request receives status 401 or
  404, \<open>get_contacts_from_list\<close> returns normally, its result is the empty list, and
  it has printed the line for the condition: the authentication failure for 401, the
  unknown list for 404.
\<close>

theorem auth_or_not_found_returns_empty:
  assumes "\<forall>p\<in>set pages. has_more (snd p) = Some True"
    and "status_code = 401 \<or> status_code = 404"
  shows "\<exists>res. get_contacts_from_list debug list_id limit
                 (map page_response pages @ Response status_code text body # rest) = Some res \<and>
           returned res = [] \<and>
           (if status_code = 401 then AuthenticationFailed else ListNotFound list_id) \<in> set (console res)"
proof -
  define st0 where "st0 = \<lparr>contacts = [], offset = 0, page = 1, sent = [],
              printed = [FetchingFromList list_id]\<rparr>"
  define st where "st = after_pages debug limit st0 pages"
  have "fetch_pages debug list_id limit st0 (map page_response pages @ Response status_code text body # rest) =
        fetch_pages debug list_id limit st (Response status_code text body # rest)"
    using fetch_pages_continue [OF assms(1)] by (simp add: st_def)
  then have f: "fetch_pages debug list_id limit st0 (map page_response pages @ Response status_code text body # rest) =
      Some (Return_empty,
        say (if status_code = 401 then [AuthenticationFailed] else [ListNotFound list_id, RunGetLists])
          (say (if debug then [FetchingPage (page st) (offset st)] else [])
            (st\<lparr>sent := sent st @ [\<lparr>count = limit, vidOffset = offset st\<rparr>]\<rparr>)))"
    using assms(2) by (cases "status_code = 401") (simp_all add: Let_def)
  show ?thesis
    unfolding get_contacts_from_list_def st0_def [symmetric] f
    by (simp add: say_def)
qed

theorem auth_or_not_found_returns_empty_witness:
  "((401::int) = 401 \<or> (401::int) = 404) \<and>
   (\<exists>res. get_contacts_from_list True ''7'' 100 [Response 401 ''Unauthorized'' (Inl ''no body'')] =
            Some res \<and>
      returned res = [] \<and> AuthenticationFailed \<in> set (console res))"
proof -
  have h1: "\<forall>p\<in>set ([] :: (string \<times> page_data) list). has_more (snd p) = Some True"
    by simp
  have h2: "(401::int) = 401 \<or> (401::int) = 404"
    by simp
  show ?thesis
    using auth_or_not_found_returns_empty [OF h1 h2, of True "''7''" 100 "''Unauthorized''"
        "Inl ''no body''" "[]"]
    by simp
qed

text \<open>
  Claim C7: when the requests are answered by successful pages that all announce more
  (possibly none) and the next call of \<open>requests.get\<close> raises,
  \<open>get_contacts_from_list\<close> returns normally; its result is the contacts of the pages
  completed before the failure, in page order, converted to the version 3 format; the
  exception is printed.
\<close>

theorem transport_error_returns_partial:
  assumes "\<forall>p\<in>set pages. has_more (snd p) = Some True"
  shows "\<exists>res. get_contacts_from_list debug list_id limit
                 (map page_response pages @ RequestException e # rest) = Some res \<and>
           returned res = map v3_contact_of (concat (map (\<lambda>p. contacts_of (snd p)) pages)) \<and>
           ExceptionOccurred e \<in> set (console res)"
proof -
  define st0 where "st0 = \<lparr>contacts = [], offset = 0, page = 1, sent = [],
              printed = [FetchingFromList list_id]\<rparr>"
  define st where "st = after_pages debug limit st0 pages"
  have "fetch_pages debug list_id limit st0 (map page_response pages @ RequestException e # rest) =
        fetch_pages debug list_id limit st (RequestException e # rest)"
    using fetch_pages_continue [OF assms(1)] by (simp add: st_def)
  moreover have "contacts st = concat (map (\<lambda>p. contacts_of (snd p)) pages)"
    by (simp add: st_def contacts_after_pages st0_def)
  ultimately show ?thesis
    unfolding get_contacts_from_list_def st0_def [symmetric]
    by (simp add: Let_def say_def)
qed

theorem transport_error_returns_partial_witness:
  "has_more (snd page_one) = Some True \<and>
   (\<exists>res. get_contacts_from_list True ''7'' 100
            (map page_response [page_one] @ RequestException ''timed out'' # []) = Some res \<and>
      returned res = [\<lparr>v3_id = ''101'', v3_properties = [(''email'', Str ''a@example.org'')]\<rparr>] \<and>
      ExceptionOccurred ''timed out'' \<in> set (console res))"
proof -
  have h: "\<forall>p\<in>set [page_one]. has_more (snd p) = Some True"
    by (simp add: page_one_def)
  have v: "map v3_contact_of [raw_one] =
        [\<lparr>v3_id = ''101'', v3_properties = [(''email'', Str ''a@example.org'')]\<rparr>]"
    by (simp add: v3_contact_of_def flatten_def str_int_def str_nat.simps raw_one_def)
  show ?thesis
    using transport_error_returns_partial [OF h, of True "''7''" 100 "''timed out''" "[]"] v
    by (auto simp: contacts_of_def page_one_def)
qed

subsection \<open>No existing table\<close>

text \<open>
  Claim C8: when the existing table is absent (\<open>None\<close>) or empty,
  \<open>merge_contact_data\<close> returns the data frame of the new records and applies no merge
  logic: the columns are the fetched columns and no others. The rows carry the time stamp
  they were given when \<open>update_excel\<close> built them: for the rows built from the contacts
  \<open>cs\<close>, the cell \<open>Last Updated\<close> of row \<open>i\<close> is the reading of the clock in
  iteration \<open>i\<close>.
\<close>

theorem absent_or_empty_existing:
  assumes "existing = None \<or> (\<exists>e. existing = Some e \<and> df_empty e)"
  shows "merge_contact_data now new_contacts existing = Inr (DataFrame new_contacts) \<and>
         columns (DataFrame new_contacts) = (if new_contacts = [] then [] else fetched_columns) \<and>
         (\<forall>clock cs i. new_contacts = contact_data clock cs \<longrightarrow> i < length cs \<longrightarrow>
            cell_at (DataFrame new_contacts) ''Last Updated'' i = Some (Str (clock i)))"
proof -
  have "merge_contact_data now new_contacts existing = Inr (DataFrame new_contacts)"
    using assms by (auto simp: merge_contact_data_def)
  moreover have "columns (DataFrame new_contacts) = (if new_contacts = [] then [] else fetched_columns)"
    by (simp add: columns_DataFrame columns_DataFrame_Nil)
  ultimately show ?thesis
    by (simp add: Last_Updated_contact_data)
qed

theorem absent_or_empty_existing_witness:
  "(None = (None :: dataframe option) \<or> (\<exists>e. None = Some e \<and> df_empty e)) \<and>
   merge_contact_data ''2024-05-03 09:00:00''
     (contact_data (\<lambda>i. ''2024-05-02 09:00:00'') [scenario_contact]) None =
     Inr (DataFrame (contact_data (\<lambda>i. ''2024-05-02 09:00:00'') [scenario_contact])) \<and>
   cell_at (DataFrame (contact_data (\<lambda>i. ''2024-05-02 09:00:00'') [scenario_contact]))
     ''Last Updated'' 0 = Some (Str ''2024-05-02 09:00:00'')"
proof -
  have h: "None = (None :: dataframe option) \<or> (\<exists>e. None = Some e \<and> df_empty e)"
    by simp
  show ?thesis
    using absent_or_empty_existing [OF h, of "''2024-05-03 09:00:00''"
        "contact_data (\<lambda>i. ''2024-05-02 09:00:00'') [scenario_contact]"]
    by auto
qed

subsection \<open>Column order\<close>

text \<open>
  Claim C9: for a fetch that is not empty and a non-empty, well-formed existing table with
  the column \<open>Contact ID\<close>, every table that \<open>merge_contact_data\<close> returns has the
  columns Contact ID, Email, First Name, Last Name, Phone, Company, Lifecycle Stage, Lead
  Status, Last Updated, in that order, followed by the custom columns in the order they
  have in the existing table. Such a table is returned exactly when the identifiers of the
  existing table are pairwise distinct.
\<close>

theorem merged_column_order:
  assumes "new_contacts \<noteq> []" "\<not> df_empty existing_df"
    and "''Contact ID'' \<in> set (columns existing_df)" "wf_df existing_df"
  shows "(\<forall>out. merge_contact_data now new_contacts (Some existing_df) = Inr out \<longrightarrow>
            columns out =
              [''Contact ID'', ''Email'', ''First Name'', ''Last Name'', ''Phone'', ''Company'',
               ''Lifecycle Stage'', ''Lead Status'', ''Last Updated''] @
              filter (\<lambda>col. col \<notin> set fetched_columns) (columns existing_df)) \<and>
         ((\<exists>out. merge_contact_data now new_contacts (Some existing_df) = Inr out) =
            distinct (column_values existing_df ''Contact ID''))"
proof -
  have "distinct (columns existing_df)"
    using assms(4) by (simp add: wf_df_def)
  then have c: "columns (merged now new_contacts existing_df) =
      fetched_columns @ filter (\<lambda>col. col \<notin> set fetched_columns) (columns existing_df)"
    using columns_merged [OF assms(1), of existing_df now] by (simp add: custom_columns_of_def)
  have f: "[''Contact ID'', ''Email'', ''First Name'', ''Last Name'', ''Phone'', ''Company'',
            ''Lifecycle Stage'', ''Lead Status'', ''Last Updated''] = fetched_columns"
    by (simp add: fetched_columns_def)
  have m: "merge_contact_data now new_contacts (Some existing_df) =
     (if distinct (column_values existing_df ''Contact ID'')
      then Inr (merged now new_contacts existing_df) else Inl ValueError)"
    by (rule merge_contact_data_nonempty [OF assms(1,2,3)])
  show ?thesis
    unfolding f by (simp add: m c)
qed

theorem merged_column_order_witness:
  "[scenario_row] \<noteq> [] \<and> \<not> df_empty scenario_existing \<and>
   ''Contact ID'' \<in> set (columns scenario_existing) \<and> wf_df scenario_existing \<and>
   (\<exists>out. merge_contact_data ''2024-05-03 09:00:00'' [scenario_row] (Some scenario_existing) =
            Inr out \<and>
      columns out =
        [''Contact ID'', ''Email'', ''First Name'', ''Last Name'', ''Phone'', ''Company'',
         ''Lifecycle Stage'', ''Lead Status'', ''Last Updated'', ''Owner Notes''])"
proof -
  have h1: "[scenario_row] \<noteq> []"
    by simp
  have h2: "\<not> df_empty scenario_existing"
    by (simp add: evaluation)
  have h3: "''Contact ID'' \<in> set (columns scenario_existing)"
    by (simp add: evaluation)
  have h4: "wf_df scenario_existing"
    by (simp add: evaluation)
  have d: "distinct (column_values scenario_existing ''Contact ID'')"
    by (simp add: evaluation)
  have c: "filter (\<lambda>col. col \<notin> set fetched_columns) (columns scenario_existing) = [''Owner Notes'']"
    by (simp add: evaluation)
  show ?thesis
    using merged_column_order [OF h1 h2 h3 h4, of "''2024-05-03 09:00:00''"] h2 h3 h4 d
    by (auto simp: c)
qed

subsection \<open>The empty fetch\<close>

text \<open>
  Claim C10: for every non-empty existing table with the column \<open>Contact ID\<close>, the
  merge of an empty fetch returns the existing table as it is, with all its rows and
  columns, and not an empty table.
\<close>

theorem empty_fetch_keeps_existing:
  assumes "\<not> df_empty existing_df" "''Contact ID'' \<in> set (columns existing_df)"
  shows "merge_contact_data now [] (Some existing_df) = Inr existing_df"
  using assms by (simp add: merge_contact_data_def Let_def DataFrame_def df_empty_def)

theorem empty_fetch_keeps_existing_witness:
  "\<not> df_empty duplicated_existing \<and> ''Contact ID'' \<in> set (columns duplicated_existing) \<and>
   merge_contact_data ''2024-05-03 09:00:00'' [] (Some duplicated_existing) =
     Inr duplicated_existing"
proof -
  have h1: "\<not> df_empty duplicated_existing"
    by (simp add: df_empty_def nrows_def duplicated_existing_def)
  have h2: "''Contact ID'' \<in> set (columns duplicated_existing)"
    by (simp add: columns_def duplicated_existing_def)
  show ?thesis
    using empty_fetch_keeps_existing [OF h1 h2, of "''2024-05-03 09:00:00''"] h1 h2
    by simp
qed

end
